theory Spec2Isabelle
  imports Main "HOL-Library.Product_Lexorder" "HOL-Library.Multiset"
begin

section \<open>JavaScript values\<close>

text \<open>
  The front end handles three kinds of data: the form state it builds itself, the JSON
  values a response body parses to, and the React elements its components return.

  A JavaScript number is a double. The model holds the integer-valued doubles, \<open>NaN\<close>
  and the two infinities: these are the numbers \<open>parseInt\<close> produces and the numbers
  an integer literal of a JSON text parses to. In \<open>Fin n\<close> the integer \<open>n\<close> is the value
  of the double, so \<open>n\<close> is one of the integers \<open>to_double\<close> returns (every integer up
  to \<open>2^53\<close> is); the conversions to text round \<open>n\<close> once more, which leaves such an
  \<open>n\<close> as it is. \<open>-0\<close> is \<open>Fin 0\<close>, from which no operation of the front end tells
  it apart. Numbers with a fraction are not modelled.

  A string is the list of the bytes of its UTF-8 encoding. An object is the list of its
  properties; a property is looked up by the first binding of its name.
\<close>

datatype jsnum = Fin int | NaN | PosInf | NegInf

datatype jsval =
    JUndefined
  | JNull
  | JBool bool
  | JNum jsnum
  | JStr string
  | JArr "jsval list"
  | JObj "(string \<times> jsval) list"

datatype js_error =
    NetworkError   \<comment> \<open>\<open>fetch\<close> rejects: no response was received\<close>
  | SyntaxError    \<comment> \<open>\<open>res.json()\<close> rejects: the body is not JSON text\<close>
  | TypeError      \<comment> \<open>a property of \<open>null\<close> or \<open>undefined\<close> is read, a non-function is called,
                       or an object cannot be converted to a string\<close>

subsection \<open>Rounding to a double\<close>

text \<open>
  The double nearest to a non-negative integer, ties going to the even significand of
  53 bits; \<open>None\<close> when the result exceeds the largest double (the value is then an
  infinity).
\<close>

function bit_length :: "int \<Rightarrow> nat" where
  "bit_length n = (if n \<le> 0 then 0 else Suc (bit_length (n div 2)))"
  by pat_completeness auto
termination
  by (relation "measure nat") auto

declare bit_length.simps [simp del]

definition round_to_double :: "int \<Rightarrow> int option" where
  "round_to_double n =
     (let b = bit_length n in
      if b \<le> 53 then Some n
      else
        (let e = b - 53;
             q = n div 2 ^ e;
             r = n mod 2 ^ e;
             half = 2 ^ (e - 1);
             q' = (if half < r \<or> (r = half \<and> odd q) then q + 1 else q);
             v = q' * 2 ^ e
         in if 2 ^ 1024 \<le> v then None else Some v))"

definition to_double :: "int \<Rightarrow> jsnum" where
  "to_double i =
     (case round_to_double \<bar>i\<bar> of
        None \<Rightarrow> (if i < 0 then NegInf else PosInf)
      | Some v \<Rightarrow> Fin (if i < 0 then - v else v))"

subsection \<open>Conversion to string\<close>

function digits :: "int \<Rightarrow> string" where
  "digits n =
     (if n < 10 then [char_of (48 + n)]
      else digits (n div 10) @ [char_of (48 + n mod 10)])"
  by pat_completeness auto
termination
  by (relation "measure nat") auto

declare digits.simps [simp del]

text \<open>
  \<open>Number::toString\<close> for a positive integer-valued double \<open>m\<close> of \<open>nd\<close> decimal
  digits: the decimal with the fewest significant digits that still rounds to \<open>m\<close>,
  the nearest to \<open>m\<close> among those, the even one of two equally near. \<open>k\<close> is the
  number of significant digits tried.
\<close>

function shortest_decimal :: "int \<Rightarrow> nat \<Rightarrow> nat \<Rightarrow> int" where
  "shortest_decimal m nd k =
     (if nd \<le> k then m
      else
        (let scale = 10 ^ (nd - k);
             lo = (m div scale) * scale;
             hi = lo + scale;
             ok_lo = (round_to_double lo = Some m);
             ok_hi = (round_to_double hi = Some m)
         in if ok_lo \<and> ok_hi then
              (if m - lo < hi - m then lo
               else if hi - m < m - lo then hi
               else if even (m div scale) then lo else hi)
            else if ok_lo then lo
            else if ok_hi then hi
            else shortest_decimal m nd (Suc k)))"
  by pat_completeness auto
termination
  by (relation "measure (\<lambda>(m, nd, k). nd - k)") auto

declare shortest_decimal.simps [simp del]

text \<open>
  Up to 21 digits the decimal is written out; beyond, the significant digits are
  followed by the exponent, as in \<open>1e+21\<close> and \<open>1.1805916207174113e+21\<close>.
\<close>

definition double_to_string :: "int \<Rightarrow> string" where
  "double_to_string m =
     (let ds = digits (shortest_decimal m (length (digits m)) 1);
          n = length ds
      in if n \<le> 21 then ds
         else
           (case rev (dropWhile (\<lambda>c. c = CHR ''0'') (rev ds)) of
              [] \<Rightarrow> ds
            | [d] \<Rightarrow> d # ''e+'' @ digits (int n - 1)
            | d # rest \<Rightarrow> d # CHR ''.'' # rest @ ''e+'' @ digits (int n - 1)))"

definition number_to_string :: "jsnum \<Rightarrow> string" where
  "number_to_string x =
     (case x of
        NaN \<Rightarrow> ''NaN''
      | PosInf \<Rightarrow> ''Infinity''
      | NegInf \<Rightarrow> ''-Infinity''
      | Fin i \<Rightarrow>
          (case round_to_double \<bar>i\<bar> of
             None \<Rightarrow> (if i < 0 then ''-Infinity'' else ''Infinity'')
           | Some m \<Rightarrow> (if i < 0 \<and> m \<noteq> 0 then ''-'' else []) @ double_to_string m))"

fun join :: "string \<Rightarrow> string list \<Rightarrow> string" where
  "join sep [] = []"
| "join sep [s] = s"
| "join sep (s # t # ss) = s @ sep @ join sep (t # ss)"

text \<open>
  \<open>String(v)\<close>, which is also what a template literal \<open>`${v}`\<close> and \<open>"text" + v\<close> apply
  to a value parsed from JSON. An array joins its elements with commas, \<open>null\<close> and
  \<open>undefined\<close> elements giving the empty string. An object gives \<open>[object Object]\<close>
  through the \<open>toString\<close> it inherits; when it has a \<open>toString\<close> property of its own,
  which in a value parsed from JSON is never a function, the conversion throws.
\<close>

fun to_string :: "jsval \<Rightarrow> js_error + string"
  and elements_to_string :: "jsval list \<Rightarrow> js_error + string list" where
  "to_string JUndefined = Inr ''undefined''"
| "to_string JNull = Inr ''null''"
| "to_string (JBool b) = Inr (if b then ''true'' else ''false'')"
| "to_string (JNum x) = Inr (number_to_string x)"
| "to_string (JStr s) = Inr s"
| "to_string (JArr xs) =
     (case elements_to_string xs of
        Inl e \<Rightarrow> Inl e
      | Inr ss \<Rightarrow> Inr (join '','' ss))"
| "to_string (JObj kvs) =
     (if map_of kvs ''toString'' = None then Inr ''[object Object]'' else Inl TypeError)"
| "elements_to_string [] = Inr []"
| "elements_to_string (x # xs) =
     (case (if x = JUndefined \<or> x = JNull then Inr [] else to_string x) of
        Inl e \<Rightarrow> Inl e
      | Inr s \<Rightarrow>
          (case elements_to_string xs of
             Inl e \<Rightarrow> Inl e
           | Inr ss \<Rightarrow> Inr (s # ss)))"

subsection \<open>Property access, truthiness\<close>

text \<open>
  The length of a string counts UTF-16 code units: one for each character of up to
  three bytes, two for each character of four bytes.
\<close>

definition utf16_length :: "string \<Rightarrow> nat" where
  "utf16_length s =
     length (filter (\<lambda>c. \<not> (128 \<le> (of_char c :: nat) \<and> (of_char c :: nat) < 192)) s)
     + length (filter (\<lambda>c. 240 \<le> (of_char c :: nat)) s)"

text \<open>
  \<open>v.k\<close> for the property names the components read (\<open>id\<close>, \<open>allocations\<close>, \<open>length\<close>,
  \<open>patient\<close>, \<open>resource\<close>, \<open>resource_type\<close>, \<open>name\<close>, \<open>type\<close>, \<open>status\<close>; none is an
  array index). Reading a property of \<open>null\<close> or \<open>undefined\<close> throws.
\<close>

definition field :: "(string \<times> jsval) list \<Rightarrow> string \<Rightarrow> jsval" where
  "field kvs k = (case map_of kvs k of None \<Rightarrow> JUndefined | Some v \<Rightarrow> v)"

fun get_prop :: "jsval \<Rightarrow> string \<Rightarrow> js_error + jsval" where
  "get_prop JUndefined k = Inl TypeError"
| "get_prop JNull k = Inl TypeError"
| "get_prop (JBool b) k = Inr JUndefined"
| "get_prop (JNum x) k = Inr JUndefined"
| "get_prop (JStr s) k =
     Inr (if k = ''length'' then JNum (Fin (int (utf16_length s))) else JUndefined)"
| "get_prop (JArr xs) k =
     Inr (if k = ''length'' then JNum (Fin (int (length xs))) else JUndefined)"
| "get_prop (JObj kvs) k = Inr (field kvs k)"

fun truthy :: "jsval \<Rightarrow> bool" where
  "truthy JUndefined = False"
| "truthy JNull = False"
| "truthy (JBool b) = b"
| "truthy (JNum NaN) = False"
| "truthy (JNum (Fin n)) = (n \<noteq> 0)"
| "truthy (JNum PosInf) = True"
| "truthy (JNum NegInf) = True"
| "truthy (JStr s) = (s \<noteq> [])"
| "truthy (JArr xs) = True"
| "truthy (JObj kvs) = True"

definition js_or :: "jsval \<Rightarrow> jsval \<Rightarrow> jsval" where
  "js_or a b = (if truthy a then a else b)"

subsection \<open>parseInt\<close>

text \<open>
  The number of bytes of the white space or line terminator character a string starts
  with, 0 when it starts with none: TAB, LF, VT, FF, CR, SP, U+00A0, U+1680, U+2000 to
  U+200A, U+2028, U+2029, U+202F, U+205F, U+3000 and U+FEFF.
\<close>

definition white_space_length :: "string \<Rightarrow> nat" where
  "white_space_length s =
     (let b = map (of_char :: char \<Rightarrow> nat) (take 3 s) in
      if take 1 b \<in> set [[0x09], [0x0A], [0x0B], [0x0C], [0x0D], [0x20]] then 1
      else if take 2 b = [0xC2, 0xA0] then 2
      else if b \<in> set [[0xE1, 0x9A, 0x80], [0xE2, 0x80, 0xA8], [0xE2, 0x80, 0xA9],
                         [0xE2, 0x80, 0xAF], [0xE2, 0x81, 0x9F], [0xE3, 0x80, 0x80],
                         [0xEF, 0xBB, 0xBF]] then 3
      else if take 2 b = [0xE2, 0x80] \<and> length b = 3 \<and> 0x80 \<le> b ! 2 \<and> b ! 2 \<le> 0x8A
      then 3
      else 0)"

function skip_white_space :: "string \<Rightarrow> string" where
  "skip_white_space s =
     (if white_space_length s = 0 then s
      else skip_white_space (drop (white_space_length s) s))"
  by pat_completeness auto
termination
proof (relation "measure length")
  show "wf (measure length)" by simp
next
  fix s :: string
  assume ws: "white_space_length s \<noteq> 0"
  have "white_space_length [] = 0" by (simp add: white_space_length_def)
  with ws have "s \<noteq> []" by auto
  with ws show "(drop (white_space_length s) s, s) \<in> measure length" by simp
qed

declare skip_white_space.simps [simp del]

definition digit_value :: "char \<Rightarrow> nat option" where
  "digit_value c =
     (let k = (of_char c :: nat) in
      if 48 \<le> k \<and> k \<le> 57 then Some (k - 48)
      else if 97 \<le> k \<and> k \<le> 122 then Some (k - 87)
      else if 65 \<le> k \<and> k \<le> 90 then Some (k - 55)
      else None)"

definition is_digit :: "nat \<Rightarrow> char \<Rightarrow> bool" where
  "is_digit radix c = (case digit_value c of None \<Rightarrow> False | Some d \<Rightarrow> d < radix)"

definition digits_value :: "nat \<Rightarrow> string \<Rightarrow> int" where
  "digits_value radix ds =
     foldl (\<lambda>acc c. acc * int radix + (case digit_value c of None \<Rightarrow> 0 | Some d \<Rightarrow> int d))
       0 ds"

text \<open>
  \<open>parseInt(s)\<close> with no radix: leading white space is skipped, a sign is read, a
  \<open>0x\<close> prefix selects radix 16, and the longest prefix of digits is the value,
  rounded to a double; no digit at all gives \<open>NaN\<close>. (ECMAScript lets an implementation
  replace the decimal digits after the 20th by zeros before rounding; the model rounds
  the exact value.)
\<close>

definition parseInt :: "string \<Rightarrow> jsnum" where
  "parseInt s =
     (let s1 = skip_white_space s;
          negative = (case s1 of c # _ \<Rightarrow> c = CHR ''-'' | [] \<Rightarrow> False);
          s2 = (case s1 of
                  c # cs \<Rightarrow> if c = CHR ''+'' \<or> c = CHR ''-'' then cs else s1
                | [] \<Rightarrow> s1);
          hex = (take 2 s2 = ''0x'' \<or> take 2 s2 = ''0X'');
          radix = (if hex then 16 else 10);
          s3 = (if hex then drop 2 s2 else s2);
          z = takeWhile (is_digit radix) s3
      in if z = [] then NaN
         else to_double ((if negative then - 1 else 1) * digits_value radix z))"

section \<open>api.js\<close>

text \<open>
  A request as \<open>fetch\<close> sends it and a response as it receives it. The body of a request
  is the JSON value its text parses to. The body of a response is the JSON value its text
  parses to, or \<open>None\<close> when the text is not JSON. The network is a function from the
  request to the response, or to \<open>NetworkError\<close> when \<open>fetch\<close> rejects.
\<close>

record http_request =
  req_method :: string
  req_url :: string
  req_headers :: "(string \<times> string) list"
  req_body :: "jsval option"

record http_response =
  resp_status :: nat
  resp_body :: "jsval option"

type_synonym network = "http_request \<Rightarrow> js_error + http_response"

definition BASE_URL :: string where
  "BASE_URL = ''http://127.0.0.1:8000''"

text \<open>\<open>res.json()\<close>: the parsed body, whatever the status.\<close>

definition res_json :: "http_response \<Rightarrow> js_error + jsval" where
  "res_json res = (case resp_body res of None \<Rightarrow> Inl SyntaxError | Some v \<Rightarrow> Inr v)"

text \<open>The state of the request form: the object \<open>useState\<close> holds in \<open>RequestForm\<close>.\<close>

record form =
  patient_name :: string
  resource_type :: string
  priority :: jsnum
  duration :: jsnum

text \<open>
  \<open>JSON.stringify\<close> of a number is its decimal text when it is finite, which parses
  back to the same double, and \<open>null\<close> when it is \<open>NaN\<close> or an infinity; of the form,
  the object of its four properties in order.
\<close>

definition stringify_number :: "jsnum \<Rightarrow> jsval" where
  "stringify_number x =
     (case x of
        Fin n \<Rightarrow> (case to_double n of Fin m \<Rightarrow> JNum (Fin m) | _ \<Rightarrow> JNull)
      | _ \<Rightarrow> JNull)"

definition JSON_stringify :: "form \<Rightarrow> jsval" where
  "JSON_stringify data =
     JObj [(''patient_name'', JStr (patient_name data)),
           (''resource_type'', JStr (resource_type data)),
           (''priority'', stringify_number (priority data)),
           (''duration'', stringify_number (duration data))]"

definition createRequest_fetch :: "form \<Rightarrow> http_request" where
  "createRequest_fetch data =
     \<lparr>req_method = ''POST'',
      req_url = BASE_URL @ ''/request'',
      req_headers = [(''Content-Type'', ''application/json'')],
      req_body = Some (JSON_stringify data)\<rparr>"

definition createRequest :: "network \<Rightarrow> form \<Rightarrow> js_error + jsval" where
  "createRequest net data =
     (case net (createRequest_fetch data) of
        Inl e \<Rightarrow> Inl e
      | Inr res \<Rightarrow> res_json res)"

definition runScheduler_fetch :: "string \<Rightarrow> http_request" where
  "runScheduler_fetch alg =
     \<lparr>req_method = ''POST'',
      req_url = BASE_URL @ ''/schedule/'' @ alg,
      req_headers = [],
      req_body = None\<rparr>"

definition runScheduler :: "network \<Rightarrow> string \<Rightarrow> js_error + jsval" where
  "runScheduler net alg =
     (case net (runScheduler_fetch alg) of
        Inl e \<Rightarrow> Inl e
      | Inr res \<Rightarrow> res_json res)"

definition getResources_fetch :: http_request where
  "getResources_fetch =
     \<lparr>req_method = ''GET'',
      req_url = BASE_URL @ ''/resources'',
      req_headers = [],
      req_body = None\<rparr>"

definition getResources :: "network \<Rightarrow> js_error + jsval" where
  "getResources net =
     (case net getResources_fetch of
        Inl e \<Rightarrow> Inl e
      | Inr res \<Rightarrow> res_json res)"

text \<open>The network that answers every request with the response \<open>res\<close>.\<close>

definition answering :: "http_response \<Rightarrow> network" where
  "answering res = (\<lambda>_. Inr res)"

section \<open>React elements\<close>

text \<open>
  What a component returns: literal text, the value of an expression in braces, an
  element with its key, its props and its children, or the array of elements a \<open>map\<close>
  produced. React keeps the key of an element apart from its props, as a string:
  \<open>key={v}\<close> stores \<open>'' + v\<close>, and no key when \<open>v\<close> is \<open>undefined\<close>.
\<close>

datatype element =
    Text string
  | Expr jsval
  | Element string "string option" "(string \<times> jsval) list" "element list"
  | Items "element list"


text \<open>
  \<open>xs.map(f)\<close> for a callback that may throw: the elements are visited in order and the
  first exception ends the walk. The callback receives the element and its index.
\<close>

fun map_indexed :: "(jsval \<Rightarrow> nat \<Rightarrow> js_error + element) \<Rightarrow> nat \<Rightarrow> jsval list
    \<Rightarrow> js_error + element list" where
  "map_indexed f i [] = Inr []"
| "map_indexed f i (x # xs) =
     (case f x i of
        Inl e \<Rightarrow> Inl e
      | Inr y \<Rightarrow> (case map_indexed f (Suc i) xs of
                    Inl e \<Rightarrow> Inl e
                  | Inr ys \<Rightarrow> Inr (y # ys)))"

text \<open>The arrow of the allocation line, U+2192, in UTF-8.\<close>

definition arrow :: string where
  "arrow = [CHR 0xE2, CHR 0x86, CHR 0x92]"

section \<open>SchedulePanel.js\<close>

datatype schedule_button = FCFS_button | Priority_button | RoundRobin_button

fun button_label :: "schedule_button \<Rightarrow> string" where
  "button_label FCFS_button = ''FCFS''"
| "button_label Priority_button = ''Priority''"
| "button_label RoundRobin_button = ''Round Robin''"

text \<open>The argument each button's \<open>onClick\<close> passes to \<open>run\<close>.\<close>

fun onClick_alg :: "schedule_button \<Rightarrow> string" where
  "onClick_alg FCFS_button = ''fcfs''"
| "onClick_alg Priority_button = ''priority''"
| "onClick_alg RoundRobin_button = ''rr''"

text \<open>
  \<open>run\<close>: the value handed to \<open>setAllocations\<close>, or the exception that leaves the
  state as it was.
\<close>

definition run :: "network \<Rightarrow> string \<Rightarrow> js_error + jsval" where
  "run net alg =
     (case runScheduler net alg of
        Inl e \<Rightarrow> Inl e
      | Inr res \<Rightarrow>
          (case get_prop res ''allocations'' of
             Inl e \<Rightarrow> Inl e
           | Inr v \<Rightarrow> Inr (js_or v (JArr []))))"

text \<open>
  The \<open>allocations\<close> state of \<open>App\<close> after a click: the value \<open>run\<close> set, or the old
  one when \<open>run\<close> threw.
\<close>

definition click :: "network \<Rightarrow> schedule_button \<Rightarrow> jsval \<Rightarrow> jsval" where
  "click net b allocations =
     (case run net (onClick_alg b) of Inl e \<Rightarrow> allocations | Inr v \<Rightarrow> v)"

definition initial_allocations :: jsval where
  "initial_allocations = JArr []"

section \<open>AllocationResults.js\<close>

text \<open>The line of one allocation; its key is the index, as a string.\<close>

definition allocation_line :: "jsval \<Rightarrow> nat \<Rightarrow> js_error + element" where
  "allocation_line a i =
     (case get_prop a ''patient'' of
        Inl e \<Rightarrow> Inl e
      | Inr patient \<Rightarrow>
     (case get_prop a ''resource'' of
        Inl e \<Rightarrow> Inl e
      | Inr resource \<Rightarrow>
     (case get_prop a ''resource_type'' of
        Inl e \<Rightarrow> Inl e
      | Inr rtype \<Rightarrow>
          Inr (Element ''p'' (Some (number_to_string (Fin (int i)))) []
                 [Element ''strong'' None [] [Expr patient],
                  Text ('' '' @ arrow @ '' ''),
                  Expr resource,
                  Text '' ('',
                  Expr rtype,
                  Text '')'']))))"

definition no_allocations :: element where
  "no_allocations = Element ''p'' None [] [Text ''No allocations yet.'']"

definition AllocationResults :: "jsval \<Rightarrow> js_error + element" where
  "AllocationResults allocations =
     (case get_prop allocations ''length'' of
        Inl e \<Rightarrow> Inl e
      | Inr n \<Rightarrow>
          if \<not> truthy n then Inr no_allocations
          else (case allocations of
                  JArr xs \<Rightarrow>
                    (case map_indexed allocation_line 0 xs of
                       Inl e \<Rightarrow> Inl e
                     | Inr ps \<Rightarrow>
                         Inr (Element ''div'' None []
                                [Element ''h2'' None [] [Text ''Scheduling Output''],
                                 Items ps]))
                | _ \<Rightarrow> Inl TypeError))"

section \<open>ResourceList.js\<close>



definition initial_resources :: jsval where
  "initial_resources = JArr []"


section \<open>RequestForm.js\<close>

definition initial_form :: form where
  "initial_form =
     \<lparr>patient_name = '''', resource_type = ''Bed'', priority = Fin 2, duration = Fin 30\<rparr>"

text \<open>
  The options of the two \<open>select\<close> elements. An option with no \<open>value\<close> attribute has
  its text as value; \<open>value={1}\<close> is the attribute \<open>"1"\<close>.
\<close>

datatype resource_option = Bed_option | Doctor_option | OperatingRoom_option

fun resource_option_value :: "resource_option \<Rightarrow> string" where
  "resource_option_value Bed_option = ''Bed''"
| "resource_option_value Doctor_option = ''Doctor''"
| "resource_option_value OperatingRoom_option = ''Operating Room''"

datatype priority_option = Critical_option | High_option | Medium_option | Low_option

definition priority_options :: "priority_option list" where
  "priority_options = [Critical_option, High_option, Medium_option, Low_option]"

fun priority_option_label :: "priority_option \<Rightarrow> string" where
  "priority_option_label Critical_option = ''Critical''"
| "priority_option_label High_option = ''High''"
| "priority_option_label Medium_option = ''Medium''"
| "priority_option_label Low_option = ''Low''"

text \<open>The number in \<open>value={...}\<close> of each option.\<close>

fun priority_option_number :: "priority_option \<Rightarrow> int" where
  "priority_option_number Critical_option = 1"
| "priority_option_number High_option = 2"
| "priority_option_number Medium_option = 3"
| "priority_option_number Low_option = 4"

fun priority_option_value :: "priority_option \<Rightarrow> string" where
  "priority_option_value Critical_option = ''1''"
| "priority_option_value High_option = ''2''"
| "priority_option_value Medium_option = ''3''"
| "priority_option_value Low_option = ''4''"

text \<open>
  A change event of the form: the text typed into the name input, the option picked in
  a \<open>select\<close>, the text the duration input holds after the edit.
\<close>

datatype form_event =
    NameInput string
  | ResourceSelect resource_option
  | PrioritySelect priority_option
  | DurationInput string

fun onChange :: "form \<Rightarrow> form_event \<Rightarrow> form" where
  "onChange f (NameInput v) = f\<lparr>patient_name := v\<rparr>"
| "onChange f (ResourceSelect opt) = f\<lparr>resource_type := resource_option_value opt\<rparr>"
| "onChange f (PrioritySelect opt) = f\<lparr>priority := parseInt (priority_option_value opt)\<rparr>"
| "onChange f (DurationInput v) = f\<lparr>duration := parseInt v\<rparr>"

text \<open>The form state after a sequence of change events, from the initial state.\<close>

definition form_after :: "form_event list \<Rightarrow> form" where
  "form_after events = foldl onChange initial_form events"

text \<open>
  \<open>handleSubmit\<close>: the text of the alert, or the exception thrown before it (by the
  request, by reading \<open>id\<close> from a \<open>null\<close> response, or by converting the id to a
  string).
\<close>

definition handleSubmit :: "network \<Rightarrow> form \<Rightarrow> js_error + string" where
  "handleSubmit net f =
     (case createRequest net f of
        Inl e \<Rightarrow> Inl e
      | Inr res \<Rightarrow>
          (case get_prop res ''id'' of
             Inl e \<Rightarrow> Inl e
           | Inr v \<Rightarrow>
               (case to_string v of
                  Inl e \<Rightarrow> Inl e
                | Inr s \<Rightarrow> Inr (''Request submitted! ID = '' @ s))))"

section \<open>The allocation engine\<close>

text \<open>
  The front end calls an allocation engine over HTTP: the data model, the request
  queue, the resource inventory, the schedulers and the manager that validates a
  submission. Its code (the backend's models, schedulers and resource manager) is not
  among the sources, so the definitions of this section follow the specification.
\<close>

text \<open>Modelled from the spec: the resource types of the data model (the backend's
  \<open>models/resource.py\<close> is not among the sources).\<close>

datatype resource_kind = Bed | Doctor | OperatingRoom

text \<open>Modelled from the spec: the status of a resource (backend data model, not among
  the sources).\<close>

datatype availability = Available | Occupied | Maintenance

text \<open>Modelled from the spec: a resource has a unique id, a type, a label and a status
  (backend data model, not among the sources).\<close>

record resource =
  res_id :: nat
  res_kind :: resource_kind
  res_label :: string
  res_status :: availability

text \<open>Modelled from the spec: the status of a request (backend data model, not among
  the sources).\<close>

datatype request_state = Pending | Allocated | Completed

text \<open>Modelled from the spec: a request has an id and an arrival timestamp assigned at
  submission, a patient name, the requested type, a priority, a duration in minutes and
  a status (backend data model, not among the sources).\<close>

record request =
  request_id :: nat
  request_patient :: string
  request_kind :: resource_kind
  request_priority :: int
  request_duration :: int
  request_arrival :: nat
  request_state :: request_state

text \<open>Modelled from the spec: an allocation decision is a request id, a resource id and
  the assigned duration (backend schedulers, not among the sources).\<close>

record decision =
  decision_request :: nat
  decision_resource :: nat
  decision_duration :: int

text \<open>Modelled from the spec: \<open>listAvailable(type)\<close> returns the resources of the type
  whose status is Available, in ascending id order (backend inventory, not among the
  sources).\<close>

definition listAvailable :: "resource list \<Rightarrow> resource_kind \<Rightarrow> resource list" where
  "listAvailable pool t =
     sort_key res_id (filter (\<lambda>r. res_kind r = t \<and> res_status r = Available) pool)"

text \<open>Modelled from the spec: \<open>tryReserve(resourceId)\<close> flips a resource from Available
  to Occupied and returns false if the resource is not Available (backend inventory,
  not among the sources).\<close>

definition tryReserve :: "nat \<Rightarrow> resource list \<Rightarrow> bool \<times> resource list" where
  "tryReserve i pool =
     (if list_ex (\<lambda>r. res_id r = i \<and> res_status r = Available) pool
      then (True,
            map (\<lambda>r. if res_id r = i \<and> res_status r = Available
                      then r\<lparr>res_status := Occupied\<rparr> else r) pool)
      else (False, pool))"

text \<open>Modelled from the spec: the FCFS scheduler walks the requests in the order given;
  for each it reserves the available resource of the requested type with the least id
  and emits a decision for the full requested duration, or leaves the request
  unallocated when no resource of the type is available. It returns the decisions and
  the requests left unallocated (backend \<open>fcfs_scheduler.py\<close>, not among the sources).\<close>

fun plan_fcfs :: "request list \<Rightarrow> resource list \<Rightarrow> decision list \<times> request list" where
  "plan_fcfs [] pool = ([], [])"
| "plan_fcfs (r # rs) pool =
     (case listAvailable pool (request_kind r) of
        [] \<Rightarrow> (case plan_fcfs rs pool of (ds, left) \<Rightarrow> (ds, r # left))
      | a # _ \<Rightarrow>
          (case tryReserve (res_id a) pool of
             (True, pool') \<Rightarrow>
               (case plan_fcfs rs pool' of
                  (ds, left) \<Rightarrow>
                    (\<lparr>decision_request = request_id r,
                      decision_resource = res_id a,
                      decision_duration = request_duration r\<rparr> # ds, left))
           | (False, _) \<Rightarrow> (case plan_fcfs rs pool of (ds, left) \<Rightarrow> (ds, r # left))))"

text \<open>Modelled from the spec: the Priority scheduler stable-sorts the batch by priority
  ascending, then arrival timestamp ascending, and proceeds as FCFS over the sorted
  order (backend \<open>priority_scheduler.py\<close>, not among the sources).\<close>

definition plan_priority :: "request list \<Rightarrow> resource list \<Rightarrow> decision list \<times> request list" where
  "plan_priority rs pool =
     plan_fcfs (sort_key (\<lambda>r. (request_priority r, request_arrival r)) rs) pool"

text \<open>Modelled from the spec: the resources are ample for a batch when, for each type,
  at least as many resources are available as the batch has requests of the type (the
  "sufficient resources" of the testable properties).\<close>

definition ample :: "resource list \<Rightarrow> request list \<Rightarrow> bool" where
  "ample pool rs =
     list_all (\<lambda>t. length (filter (\<lambda>r. request_kind r = t) rs) \<le> length (listAvailable pool t))
       [Bed, Doctor, OperatingRoom]"

text \<open>Modelled from the spec: the manager owns the inventory and the queue of pending
  requests, and assigns ids and logical arrival timestamps (backend
  \<open>resource_manager.py\<close>, not among the sources).\<close>

record manager =
  inventory :: "resource list"
  queue :: "request list"
  next_id :: nat
  clock :: nat

text \<open>Modelled from the spec: a ValidationError names the field that failed.\<close>

datatype validation_error = ValidationError string

text \<open>Modelled from the spec: the known resource types are Bed, Doctor and
  OperatingRoom.\<close>

definition parse_resource_kind :: "string \<Rightarrow> resource_kind option" where
  "parse_resource_kind s =
     (if s = ''Bed'' then Some Bed
      else if s = ''Doctor'' then Some Doctor
      else if s = ''OperatingRoom'' then Some OperatingRoom
      else None)"

text \<open>Modelled from the spec: \<open>submitRequest(patientName, type, priority, duration)\<close>
  validates its inputs, assigns the id and the arrival timestamp, enqueues the request
  at the back and returns it; a submission with an unknown resource type, a priority
  outside 1 to 4 or a non-positive duration is rejected with the field that failed and
  leaves the manager as it was (backend \<open>resource_manager.py\<close>, not among the
  sources).\<close>

definition submitRequest ::
    "manager \<Rightarrow> string \<Rightarrow> string \<Rightarrow> int \<Rightarrow> int \<Rightarrow> (validation_error + request) \<times> manager" where
  "submitRequest m patientName ty prio dur =
     (case parse_resource_kind ty of
        None \<Rightarrow> (Inl (ValidationError ''resourceType''), m)
      | Some k \<Rightarrow>
          if prio < 1 \<or> 4 < prio then (Inl (ValidationError ''priority''), m)
          else if dur \<le> 0 then (Inl (ValidationError ''durationMinutes''), m)
          else
            (let r = \<lparr>request_id = next_id m,
                      request_patient = patientName,
                      request_kind = k,
                      request_priority = prio,
                      request_duration = dur,
                      request_arrival = clock m,
                      request_state = Pending\<rparr>
             in (Inr r, m\<lparr>queue := queue m @ [r],
                          next_id := Suc (next_id m),
                          clock := Suc (clock m)\<rparr>)))"

text \<open>Modelled from the spec: the fields of a submission that fail validation.\<close>

definition failed_fields :: "string \<Rightarrow> int \<Rightarrow> int \<Rightarrow> string list" where
  "failed_fields ty prio dur =
     (if parse_resource_kind ty = None then [''resourceType''] else [])
     @ (if prio < 1 \<or> 4 < prio then [''priority''] else [])
     @ (if dur \<le> 0 then [''durationMinutes''] else [])"

text \<open>Modelled from the spec: a sequence of submissions, each a patient name, a type, a
  priority and a duration, made one after the other against the manager.\<close>

fun submit_all :: "manager \<Rightarrow> (string \<times> string \<times> int \<times> int) list \<Rightarrow> manager" where
  "submit_all m [] = m"
| "submit_all m ((patientName, ty, prio, dur) # subs) =
     submit_all (snd (submitRequest m patientName ty prio dur)) subs"

text \<open>Modelled from the spec: priority and duration of a queued request are valid.\<close>

definition valid_request :: "request \<Rightarrow> bool" where
  "valid_request r = (1 \<le> request_priority r \<and> request_priority r \<le> 4 \<and> 0 < request_duration r)"

section \<open>Properties of the allocation engine\<close>

subsection \<open>The order of a Priority pass\<close>

lemma ample_iff:
  "ample pool rs =
     (\<forall>t. length (filter (\<lambda>r. request_kind r = t) rs) \<le> length (listAvailable pool t))"
proof -
  have "(\<forall>t. P t) = (P Bed \<and> P Doctor \<and> P OperatingRoom)" for P
  proof
    assume "\<forall>t. P t" then show "P Bed \<and> P Doctor \<and> P OperatingRoom" by simp
  next
    assume h: "P Bed \<and> P Doctor \<and> P OperatingRoom"
    show "\<forall>t. P t"
    proof
      fix t show "P t" using h by (cases t) simp_all
    qed
  qed
  then show ?thesis by (simp add: ample_def)
qed

lemma length_listAvailable:
  "length (listAvailable pool t) =
     length (filter (\<lambda>r. res_kind r = t \<and> res_status r = Available) pool)"
  by (simp add: listAvailable_def)

lemma listAvailable_head:
  assumes "listAvailable pool t = a # rest"
  shows "a \<in> set pool \<and> res_kind a = t \<and> res_status a = Available"
proof -
  have "a \<in> set (listAvailable pool t)" using assms by simp
  then show ?thesis by (simp add: listAvailable_def)
qed

lemma tryReserve_available:
  assumes "a \<in> set pool" "res_status a = Available"
  shows "tryReserve (res_id a) pool =
           (True, map (\<lambda>r. if res_id r = res_id a \<and> res_status r = Available
                            then r\<lparr>res_status := Occupied\<rparr> else r) pool)"
proof -
  have "list_ex (\<lambda>r. res_id r = res_id a \<and> res_status r = Available) pool"
    using assms by (auto simp: list_ex_iff)
  then show ?thesis by (simp add: tryReserve_def)
qed

lemma reserve_other_ids:
  "res_id a \<notin> res_id ` set pool \<Longrightarrow>
   map (\<lambda>r. if res_id r = res_id a \<and> res_status r = Available
             then r\<lparr>res_status := Occupied\<rparr> else r) pool = pool"
  by (induction pool) auto

lemma reserve_count:
  assumes "distinct (map res_id pool)" "a \<in> set pool" "res_status a = Available"
  shows "length (filter (\<lambda>r. res_kind r = t \<and> res_status r = Available)
           (map (\<lambda>r. if res_id r = res_id a \<and> res_status r = Available
                      then r\<lparr>res_status := Occupied\<rparr> else r) pool))
         = length (filter (\<lambda>r. res_kind r = t \<and> res_status r = Available) pool)
           - (if res_kind a = t then 1 else 0)"
  using assms
proof (induction pool)
  case Nil
  then show ?case by simp
next
  case (Cons r pool)
  show ?case
  proof (cases "a = r")
    case True
    have "res_id a \<notin> res_id ` set pool" using Cons.prems(1) True by auto
    from reserve_other_ids [OF this] show ?thesis
      using True Cons.prems(3) by simp
  next
    case False
    then have in_pool: "a \<in> set pool" using Cons.prems(2) by simp
    then have ne: "res_id r \<noteq> res_id a" using Cons.prems(1) by force
    have d: "distinct (map res_id pool)" using Cons.prems(1) by simp
    have pos: "res_kind a = t \<Longrightarrow>
        0 < length (filter (\<lambda>r. res_kind r = t \<and> res_status r = Available) pool)"
      using in_pool Cons.prems(3) by (auto simp: filter_empty_conv)
    from Cons.IH [OF d in_pool Cons.prems(3)] ne pos show ?thesis by auto
  qed
qed

lemma reserve_ids:
  "map res_id (map (\<lambda>r. if res_id r = i \<and> res_status r = Available
                         then r\<lparr>res_status := Occupied\<rparr> else r) pool) = map res_id pool"
  by (induction pool) auto

lemma plan_fcfs_ample:
  assumes "distinct (map res_id pool)"
    and "\<forall>t. length (filter (\<lambda>r. request_kind r = t) rs) \<le> length (listAvailable pool t)"
  shows "map decision_request (fst (plan_fcfs rs pool)) = map request_id rs
         \<and> map decision_duration (fst (plan_fcfs rs pool)) = map request_duration rs
         \<and> snd (plan_fcfs rs pool) = []"
  using assms
proof (induction rs arbitrary: pool)
  case Nil
  then show ?case by simp
next
  case (Cons r rs)
  let ?t = "request_kind r"
  have "listAvailable pool ?t \<noteq> []"
    using Cons.prems(2) [rule_format, of ?t] by auto
  then obtain a rest where av: "listAvailable pool ?t = a # rest"
    by (cases "listAvailable pool ?t") auto
  from listAvailable_head [OF av]
  have a: "a \<in> set pool" "res_kind a = ?t" "res_status a = Available" by simp_all
  let ?pool' = "map (\<lambda>x. if res_id x = res_id a \<and> res_status x = Available
                          then x\<lparr>res_status := Occupied\<rparr> else x) pool"
  have tr: "tryReserve (res_id a) pool = (True, ?pool')"
    by (rule tryReserve_available [OF a(1) a(3)])
  have d': "distinct (map res_id ?pool')"
    using Cons.prems(1) by (simp only: reserve_ids)
  have am': "\<forall>t. length (filter (\<lambda>x. request_kind x = t) rs) \<le> length (listAvailable ?pool' t)"
  proof
    fix t
    have c: "length (listAvailable ?pool' t) =
        length (listAvailable pool t) - (if res_kind a = t then 1 else 0)"
      unfolding length_listAvailable
      by (rule reserve_count [OF Cons.prems(1) a(1) a(3)])
    have "length (filter (\<lambda>x. request_kind x = t) (r # rs)) \<le> length (listAvailable pool t)"
      using Cons.prems(2) by blast
    then show "length (filter (\<lambda>x. request_kind x = t) rs) \<le> length (listAvailable ?pool' t)"
      using c a(2) by (auto split: if_splits)
  qed
  from Cons.IH [OF d' am'] show ?case
    using av tr by (simp add: case_prod_unfold)
qed

lemma sorted_pairs_same_first:
  "\<forall>x \<in> set zs. f x = c \<Longrightarrow> sorted (map g zs) \<Longrightarrow> sorted (map (\<lambda>x. (f x, g x)) zs)"
  by (induction zs) (auto simp: less_eq_prod_def)

lemma sorted_map_fst:
  "sorted (map (\<lambda>x. (f x, g x)) zs) \<Longrightarrow> sorted (map f zs)"
  by (induction zs) (auto simp: less_eq_prod_def less_le)

lemma sort_key_priority_arrival:
  fixes f :: "'a \<Rightarrow> int" and g :: "'a \<Rightarrow> nat"
  assumes "sorted (map g xs)"
  shows "sort_key (\<lambda>x. (f x, g x)) xs = sort_key f xs"
proof -
  let ?ys = "sort_key (\<lambda>x. (f x, g x)) xs"
  have "sort_key f xs = ?ys"
  proof (rule properties_for_sort_key)
    show "mset ?ys = mset xs" by simp
  next
    show "sorted (map f ?ys)"
      by (rule sorted_map_fst [where g = g]) simp
  next
    fix k
    let ?P = "\<lambda>x. f k = f x"
    have "filter ?P ?ys = sort_key (\<lambda>x. (f x, g x)) (filter ?P xs)"
      by (rule filter_sort)
    also have "\<dots> = filter ?P xs"
    proof (rule sort_key_id_if_sorted)
      have "sorted (map g (filter ?P xs))" using assms by (rule sorted_filter)
      moreover have "\<forall>x \<in> set (filter ?P xs). f x = f k" by simp
      ultimately show "sorted (map (\<lambda>x. (f x, g x)) (filter ?P xs))"
        by (intro sorted_pairs_same_first)
    qed
    finally show "filter ?P ?ys = filter ?P xs" .
  qed
  then show ?thesis by simp
qed

lemma plan_priority_order:
  assumes "distinct (map res_id pool)" "ample pool rs" "sorted (map request_arrival rs)"
  shows "map decision_request (fst (plan_priority rs pool)) = map request_id (sort_key request_priority rs)
         \<and> snd (plan_priority rs pool) = []"
proof -
  let ?s = "sort_key (\<lambda>r. (request_priority r, request_arrival r)) rs"
  have s: "?s = sort_key request_priority rs"
    using assms(3) by (rule sort_key_priority_arrival)
  have "\<forall>t. length (filter (\<lambda>r. request_kind r = t) ?s) \<le> length (listAvailable pool t)"
    using assms(2) by (simp add: ample_iff filter_sort)
  from plan_fcfs_ample [OF assms(1) this] show ?thesis
    by (simp add: plan_priority_def s)
qed

text \<open>
  C4. Under the Priority algorithm, for a batch of four requests in arrival order with
  priorities 3, 1, 2, 1 and ample resources, one scheduling pass allocates in the order
  R2, R4, R3, R1 and leaves no request unallocated: the batch is stably sorted by
  priority ascending, arrival order breaking the tie between R2 and R4.
\<close>

theorem priority_allocation_order:
  assumes "distinct (map res_id pool)"
    and "ample pool [r1, r2, r3, r4]"
    and "sorted (map request_arrival [r1, r2, r3, r4])"
    and "map request_priority [r1, r2, r3, r4] = [3, 1, 2, 1]"
  shows "map decision_request (fst (plan_priority [r1, r2, r3, r4] pool)) =
           map request_id [r2, r4, r3, r1]
         \<and> sort_key request_priority [r1, r2, r3, r4] = [r2, r4, r3, r1]
         \<and> snd (plan_priority [r1, r2, r3, r4] pool) = []"
proof -
  have p: "request_priority r1 = 3" "request_priority r2 = 1" "request_priority r3 = 2"
    "request_priority r4 = 1"
    using assms(4) by simp_all
  have s: "sort_key request_priority [r1, r2, r3, r4] = [r2, r4, r3, r1]"
    by (simp add: p)
  from plan_priority_order [OF assms(1) assms(2) assms(3)] s show ?thesis by simp
qed

text \<open>Three beds and a doctor for three bed requests and one doctor request.\<close>

theorem priority_allocation_order_witness:
  "distinct (map res_id
      [\<lparr>res_id = 1, res_kind = Bed, res_label = ''Bed 1'', res_status = Available\<rparr>,
       \<lparr>res_id = 2, res_kind = Bed, res_label = ''Bed 2'', res_status = Available\<rparr>,
       \<lparr>res_id = 3, res_kind = Bed, res_label = ''Bed 3'', res_status = Available\<rparr>,
       \<lparr>res_id = 4, res_kind = Doctor, res_label = ''Dr. Smith'', res_status = Available\<rparr>])
   \<and> map decision_request (fst (plan_priority
      [\<lparr>request_id = 1, request_patient = ''Ann'', request_kind = Bed, request_priority = 3,
        request_duration = 30, request_arrival = 0, request_state = Pending\<rparr>,
       \<lparr>request_id = 2, request_patient = ''Bob'', request_kind = Doctor, request_priority = 1,
        request_duration = 20, request_arrival = 1, request_state = Pending\<rparr>,
       \<lparr>request_id = 3, request_patient = ''Cyd'', request_kind = Bed, request_priority = 2,
        request_duration = 45, request_arrival = 2, request_state = Pending\<rparr>,
       \<lparr>request_id = 4, request_patient = ''Dee'', request_kind = Bed, request_priority = 1,
        request_duration = 15, request_arrival = 3, request_state = Pending\<rparr>]
      [\<lparr>res_id = 1, res_kind = Bed, res_label = ''Bed 1'', res_status = Available\<rparr>,
       \<lparr>res_id = 2, res_kind = Bed, res_label = ''Bed 2'', res_status = Available\<rparr>,
       \<lparr>res_id = 3, res_kind = Bed, res_label = ''Bed 3'', res_status = Available\<rparr>,
       \<lparr>res_id = 4, res_kind = Doctor, res_label = ''Dr. Smith'', res_status = Available\<rparr>]))
     = [2, 4, 3, 1]"
proof -
  let ?pool = "[\<lparr>res_id = 1, res_kind = Bed, res_label = ''Bed 1'', res_status = Available\<rparr>,
       \<lparr>res_id = 2, res_kind = Bed, res_label = ''Bed 2'', res_status = Available\<rparr>,
       \<lparr>res_id = 3, res_kind = Bed, res_label = ''Bed 3'', res_status = Available\<rparr>,
       \<lparr>res_id = 4, res_kind = Doctor, res_label = ''Dr. Smith'', res_status = Available\<rparr>]"
  let ?r1 = "\<lparr>request_id = 1, request_patient = ''Ann'', request_kind = Bed, request_priority = 3,
        request_duration = 30, request_arrival = 0, request_state = Pending\<rparr>"
  let ?r2 = "\<lparr>request_id = 2, request_patient = ''Bob'', request_kind = Doctor, request_priority = 1,
        request_duration = 20, request_arrival = 1, request_state = Pending\<rparr>"
  let ?r3 = "\<lparr>request_id = 3, request_patient = ''Cyd'', request_kind = Bed, request_priority = 2,
        request_duration = 45, request_arrival = 2, request_state = Pending\<rparr>"
  let ?r4 = "\<lparr>request_id = 4, request_patient = ''Dee'', request_kind = Bed, request_priority = 1,
        request_duration = 15, request_arrival = 3, request_state = Pending\<rparr>"
  have h1: "distinct (map res_id ?pool)" by simp
  have h2: "ample ?pool [?r1, ?r2, ?r3, ?r4]"
    by (simp add: ample_def listAvailable_def)
  have h3: "sorted (map request_arrival [?r1, ?r2, ?r3, ?r4])" by simp
  have h4: "map request_priority [?r1, ?r2, ?r3, ?r4] = [3, 1, 2, 1]" by simp
  from priority_allocation_order [OF h1 h2 h3 h4] h1 show ?thesis by simp
qed

subsection \<open>Validation at submission\<close>

lemma submitRequest_queue_valid:
  "list_all valid_request (queue m) \<Longrightarrow>
   list_all valid_request (queue (snd (submitRequest m patientName ty prio dur)))"
  by (auto simp: submitRequest_def valid_request_def Let_def split: option.splits)

lemma submit_all_queue_valid:
  "list_all valid_request (queue m) \<Longrightarrow> list_all valid_request (queue (submit_all m subs))"
proof (induction subs arbitrary: m)
  case Nil
  then show ?case by simp
next
  case (Cons sub subs)
  obtain patientName ty prio dur where sub: "sub = (patientName, ty, prio, dur)"
    by (cases sub) auto
  have "list_all valid_request (queue (snd (submitRequest m patientName ty prio dur)))"
    using Cons.prems by (rule submitRequest_queue_valid)
  then show ?case using Cons.IH sub by simp
qed

text \<open>
  C7. A submission with an unknown resource type, a priority outside 1 to 4 or a
  non-positive duration is rejected by \<open>submitRequest\<close> itself, with a ValidationError
  that names a field that failed; the queue is left as it was. Whatever is submitted,
  every request in the queue has a priority in 1 to 4 and a positive duration.
\<close>

theorem invalid_submission_is_rejected:
  assumes "parse_resource_kind ty = None \<or> prio < 1 \<or> 4 < prio \<or> dur \<le> 0"
  shows "(\<exists>f. submitRequest m patientName ty prio dur = (Inl (ValidationError f), m)
              \<and> f \<in> set (failed_fields ty prio dur))
         \<and> queue (snd (submitRequest m patientName ty prio dur)) = queue m
         \<and> list_all valid_request (queue (submit_all (m\<lparr>queue := []\<rparr>) subs))"
proof -
  have rej: "\<exists>f. submitRequest m patientName ty prio dur = (Inl (ValidationError f), m)
              \<and> f \<in> set (failed_fields ty prio dur)"
    using assms
    by (auto simp: submitRequest_def failed_fields_def split: option.splits)
  then have q: "queue (snd (submitRequest m patientName ty prio dur)) = queue m"
    by auto
  have "list_all valid_request (queue (m\<lparr>queue := []\<rparr>))" by simp
  then have inv: "list_all valid_request (queue (submit_all (m\<lparr>queue := []\<rparr>) subs))"
    by (rule submit_all_queue_valid)
  from rej q inv show ?thesis by blast
qed

text \<open>
  A priority of 5 is rejected with the field \<open>priority\<close>; of four submissions, three
  of them invalid, only the valid one is queued.
\<close>

theorem invalid_submission_is_rejected_witness:
  "submitRequest \<lparr>inventory = [], queue = [], next_id = 1, clock = 0\<rparr> ''Ann'' ''Bed'' 5 30 =
     (Inl (ValidationError ''priority''), \<lparr>inventory = [], queue = [], next_id = 1, clock = 0\<rparr>)
   \<and> map request_patient (queue (submit_all (\<lparr>inventory = [], queue = [], next_id = 1, clock = 0\<rparr>\<lparr>queue := []\<rparr>)
        [(''Ann'', ''Bed'', 5, 30), (''Bob'', ''Doctor'', 1, 20), (''Cyd'', ''Bed'', 2, 0),
         (''Dee'', ''Ward'', 2, 10)])) = [''Bob'']"
proof -
  have h: "parse_resource_kind ''Bed'' = None \<or> (5::int) < 1 \<or> 4 < (5::int) \<or> (30::int) \<le> 0"
    by simp
  have f: "failed_fields ''Bed'' 5 30 = [''priority'']"
    by (simp add: failed_fields_def parse_resource_kind_def)
  have q: "map request_patient (queue (submit_all (\<lparr>inventory = [], queue = [], next_id = 1, clock = 0\<rparr>\<lparr>queue := []\<rparr>)
        [(''Ann'', ''Bed'', 5, 30), (''Bob'', ''Doctor'', 1, 20), (''Cyd'', ''Bed'', 2, 0),
         (''Dee'', ''Ward'', 2, 10)])) = [''Bob'']"
    by (simp add: submitRequest_def parse_resource_kind_def Let_def)
  from invalid_submission_is_rejected [OF h, of "\<lparr>inventory = [], queue = [], next_id = 1, clock = 0\<rparr>" "''Ann''" "[]"]
    f q show ?thesis by auto
qed

section \<open>Properties of the front end\<close>

subsection \<open>The algorithm identifiers of the schedule panel\<close>

text \<open>
  C1 (as amended). Every scheduling pass triggered from the schedule panel sends one of
  exactly the identifiers \<open>fcfs\<close>, \<open>priority\<close> and \<open>rr\<close>, as the last segment of the
  URL that \<open>runScheduler\<close> posts to; the Round Robin button sends \<open>rr\<close>.
\<close>

theorem schedule_buttons_send_fcfs_priority_rr:
  "onClick_alg b \<in> {''fcfs'', ''priority'', ''rr''}
   \<and> range onClick_alg = {''fcfs'', ''priority'', ''rr''}
   \<and> onClick_alg RoundRobin_button = ''rr''
   \<and> req_url (runScheduler_fetch (onClick_alg b)) =
       ''http://127.0.0.1:8000/schedule/'' @ onClick_alg b
   \<and> run net (onClick_alg b) =
       (case net (runScheduler_fetch (onClick_alg b)) of
          Inl e \<Rightarrow> Inl e
        | Inr res \<Rightarrow> (case res_json res of
                        Inl e \<Rightarrow> Inl e
                      | Inr v \<Rightarrow> (case get_prop v ''allocations'' of
                                     Inl e \<Rightarrow> Inl e
                                   | Inr a \<Rightarrow> Inr (js_or a (JArr [])))))"
proof -
  have mem: "onClick_alg b \<in> {''fcfs'', ''priority'', ''rr''}"
    by (cases b) simp_all
  have "range onClick_alg \<subseteq> {''fcfs'', ''priority'', ''rr''}"
  proof
    fix x assume "x \<in> range onClick_alg"
    then obtain c where "x = onClick_alg c" by blast
    then show "x \<in> {''fcfs'', ''priority'', ''rr''}" by (cases c) simp_all
  qed
  moreover have "{''fcfs'', ''priority'', ''rr''} \<subseteq> range onClick_alg"
  proof -
    have "''fcfs'' = onClick_alg FCFS_button" "''priority'' = onClick_alg Priority_button"
      "''rr'' = onClick_alg RoundRobin_button" by simp_all
    then show ?thesis by (metis insert_subset empty_subsetI rangeI)
  qed
  ultimately have rng: "range onClick_alg = {''fcfs'', ''priority'', ''rr''}" by blast
  have url: "req_url (runScheduler_fetch (onClick_alg b)) =
      ''http://127.0.0.1:8000/schedule/'' @ onClick_alg b"
    by (simp add: runScheduler_fetch_def BASE_URL_def)
  have r: "run net (onClick_alg b) =
       (case net (runScheduler_fetch (onClick_alg b)) of
          Inl e \<Rightarrow> Inl e
        | Inr res \<Rightarrow> (case res_json res of
                        Inl e \<Rightarrow> Inl e
                      | Inr v \<Rightarrow> (case get_prop v ''allocations'' of
                                     Inl e \<Rightarrow> Inl e
                                   | Inr a \<Rightarrow> Inr (js_or a (JArr [])))))"
    by (simp add: run_def runScheduler_def split: sum.splits)
  from mem rng url r show ?thesis by simp
qed

text \<open>
  The Round Robin button does not send \<open>roundRobin\<close>: the identifier it sends is \<open>rr\<close>,
  which is none of \<open>fcfs\<close>, \<open>priority\<close>, \<open>roundRobin\<close>.
\<close>

theorem round_robin_button_does_not_send_roundRobin:
  "onClick_alg RoundRobin_button \<noteq> ''roundRobin''
   \<and> onClick_alg RoundRobin_button \<notin> {''fcfs'', ''priority'', ''roundRobin''}
   \<and> req_url (runScheduler_fetch (onClick_alg RoundRobin_button)) =
       ''http://127.0.0.1:8000/schedule/rr''"
  by (simp add: runScheduler_fetch_def BASE_URL_def)

subsection \<open>The API client and the response status\<close>

text \<open>
  C10. None of \<open>createRequest\<close>, \<open>runScheduler\<close> and \<open>getResources\<close> inspects the status
  of the response: for every response, whatever its status, each returns the value the
  body parses to, and throws the parse error when the body is not JSON. The result does
  not depend on the status.
\<close>

theorem api_returns_parsed_body_whatever_status:
  "createRequest net data =
     (case net (createRequest_fetch data) of
        Inl e \<Rightarrow> Inl e
      | Inr res \<Rightarrow> (case resp_body res of None \<Rightarrow> Inl SyntaxError | Some v \<Rightarrow> Inr v))
   \<and> runScheduler net alg =
     (case net (runScheduler_fetch alg) of
        Inl e \<Rightarrow> Inl e
      | Inr res \<Rightarrow> (case resp_body res of None \<Rightarrow> Inl SyntaxError | Some v \<Rightarrow> Inr v))
   \<and> getResources net =
     (case net getResources_fetch of
        Inl e \<Rightarrow> Inl e
      | Inr res \<Rightarrow> (case resp_body res of None \<Rightarrow> Inl SyntaxError | Some v \<Rightarrow> Inr v))
   \<and> createRequest (answering \<lparr>resp_status = s, resp_body = b\<rparr>) data =
     (case b of None \<Rightarrow> Inl SyntaxError | Some v \<Rightarrow> Inr v)
   \<and> runScheduler (answering \<lparr>resp_status = s, resp_body = b\<rparr>) alg =
     (case b of None \<Rightarrow> Inl SyntaxError | Some v \<Rightarrow> Inr v)
   \<and> getResources (answering \<lparr>resp_status = s, resp_body = b\<rparr>) =
     (case b of None \<Rightarrow> Inl SyntaxError | Some v \<Rightarrow> Inr v)"
proof -
  have general:
    "createRequest net data =
       (case net (createRequest_fetch data) of
          Inl e \<Rightarrow> Inl e
        | Inr res \<Rightarrow> (case resp_body res of None \<Rightarrow> Inl SyntaxError | Some v \<Rightarrow> Inr v))"
    "runScheduler net alg =
       (case net (runScheduler_fetch alg) of
          Inl e \<Rightarrow> Inl e
        | Inr res \<Rightarrow> (case resp_body res of None \<Rightarrow> Inl SyntaxError | Some v \<Rightarrow> Inr v))"
    "getResources net =
       (case net getResources_fetch of
          Inl e \<Rightarrow> Inl e
        | Inr res \<Rightarrow> (case resp_body res of None \<Rightarrow> Inl SyntaxError | Some v \<Rightarrow> Inr v))"
    by (simp_all add: createRequest_def runScheduler_def getResources_def res_json_def
        split: sum.splits)
  have answered:
    "createRequest (answering \<lparr>resp_status = s, resp_body = b\<rparr>) data =
       (case b of None \<Rightarrow> Inl SyntaxError | Some v \<Rightarrow> Inr v)"
    "runScheduler (answering \<lparr>resp_status = s, resp_body = b\<rparr>) alg =
       (case b of None \<Rightarrow> Inl SyntaxError | Some v \<Rightarrow> Inr v)"
    "getResources (answering \<lparr>resp_status = s, resp_body = b\<rparr>) =
       (case b of None \<Rightarrow> Inl SyntaxError | Some v \<Rightarrow> Inr v)"
    by (simp_all add: createRequest_def runScheduler_def getResources_def answering_def
        res_json_def)
  from general answered show ?thesis by blast
qed

subsection \<open>Numbers and strings as JavaScript has them\<close>

lemma parseInt_rounds_to_double:
  "parseInt ''9007199254740993'' = Fin 9007199254740992"
  by code_simp

lemma parseInt_overflows_to_infinity:
  "parseInt (replicate 400 (CHR ''9'')) = PosInf \<and> stringify_number PosInf = JNull"
  by code_simp

lemma parseInt_skips_white_space:
  "parseInt [CHR 0x09, CHR 0xC2, CHR 0xA0, CHR 0xE2, CHR 0x80, CHR 0x83, CHR ''-'', CHR ''7'', CHR ''x'']
     = Fin (- 7)"
  by code_simp

lemma number_to_string_exponent:
  "number_to_string (Fin 1000000000000000000000) = ''1e+21''"
  by code_simp

lemma number_to_string_shortest:
  "number_to_string (Fin 18446744073709551616) = ''18446744073709552000''"
  by code_simp

lemma to_string_own_toString_throws:
  "to_string (JObj [(''toString'', JNull)]) = Inl TypeError
   \<and> to_string (JArr [JNum (Fin 1), JObj [(''toString'', JNull)]]) = Inl TypeError
   \<and> to_string (JArr [JNum (Fin 1), JNull, JObj [], JArr [JBool True, JStr ''a'']]) =
       Inr ''1,,[object Object],true,a''"
  by code_simp

subsection \<open>The request form\<close>

lemma parseInt_option_value:
  "parseInt (priority_option_value opt) = Fin (priority_option_number opt)"
proof (cases opt)
  case Critical_option
  have "parseInt ''1'' = Fin 1" by code_simp
  with Critical_option show ?thesis by simp
next
  case High_option
  have "parseInt ''2'' = Fin 2" by code_simp
  with High_option show ?thesis by simp
next
  case Medium_option
  have "parseInt ''3'' = Fin 3" by code_simp
  with Medium_option show ?thesis by simp
next
  case Low_option
  have "parseInt ''4'' = Fin 4" by code_simp
  with Low_option show ?thesis by simp
qed

lemma priority_option_number_range:
  "Fin (priority_option_number opt) \<in> {Fin 1, Fin 2, Fin 3, Fin 4}"
  by (cases opt) simp_all

lemma parseInt_empty: "parseInt [] = NaN"
  by code_simp

lemma stringify_level:
  "stringify_number (Fin 1) = JNum (Fin 1)" "stringify_number (Fin 2) = JNum (Fin 2)"
  "stringify_number (Fin 3) = JNum (Fin 3)" "stringify_number (Fin 4) = JNum (Fin 4)"
  by code_simp+

lemma stringify_priority:
  "x \<in> {Fin 1, Fin 2, Fin 3, Fin 4} \<Longrightarrow> stringify_number x = JNum x"
  using stringify_level by auto

lemma onChange_keeps_choices:
  assumes "resource_type f \<in> {''Bed'', ''Doctor'', ''Operating Room''}
           \<and> priority f \<in> {Fin 1, Fin 2, Fin 3, Fin 4}"
  shows "resource_type (onChange f ev) \<in> {''Bed'', ''Doctor'', ''Operating Room''}
         \<and> priority (onChange f ev) \<in> {Fin 1, Fin 2, Fin 3, Fin 4}"
proof (cases ev)
  case (NameInput v)
  then show ?thesis using assms by simp
next
  case (ResourceSelect opt)
  then show ?thesis using assms by (cases opt) simp_all
next
  case (PrioritySelect opt)
  then show ?thesis
    using assms priority_option_number_range [of opt]
    by (simp add: parseInt_option_value)
next
  case (DurationInput v)
  then show ?thesis using assms by simp
qed

lemma foldl_onChange_keeps_choices:
  "resource_type f \<in> {''Bed'', ''Doctor'', ''Operating Room''}
     \<and> priority f \<in> {Fin 1, Fin 2, Fin 3, Fin 4} \<Longrightarrow>
   resource_type (foldl onChange f events) \<in> {''Bed'', ''Doctor'', ''Operating Room''}
     \<and> priority (foldl onChange f events) \<in> {Fin 1, Fin 2, Fin 3, Fin 4}"
proof (induction events arbitrary: f)
  case Nil
  then show ?case by simp
next
  case (Cons ev events)
  from Cons.IH [OF onChange_keeps_choices [OF Cons.prems]] show ?case by simp
qed

lemma form_after_choices:
  "resource_type (form_after events) \<in> {''Bed'', ''Doctor'', ''Operating Room''}
   \<and> priority (form_after events) \<in> {Fin 1, Fin 2, Fin 3, Fin 4}"
  unfolding form_after_def
  by (rule foldl_onChange_keeps_choices) (simp add: initial_form_def)

lemma form_after_snoc: "form_after (events @ [ev]) = onChange (form_after events) ev"
  by (simp add: form_after_def)

lemma payload_priority:
  "get_prop (JSON_stringify f) ''priority'' = Inr (stringify_number (priority f))"
  by (simp add: JSON_stringify_def field_def)

lemma priority_range:
  "range (\<lambda>es. priority (form_after es)) = {Fin 1, Fin 2, Fin 3, Fin 4}"
proof
  show "range (\<lambda>es. priority (form_after es)) \<subseteq> {Fin 1, Fin 2, Fin 3, Fin 4}"
    using form_after_choices by auto
next
  have st: "priority (form_after [PrioritySelect opt]) = Fin (priority_option_number opt)" for opt
    using parseInt_option_value [of opt]
    by (simp add: form_after_def del: priority_option_value.simps)
  have "Fin 1 = priority (form_after [PrioritySelect Critical_option])"
    "Fin 2 = priority (form_after [PrioritySelect High_option])"
    "Fin 3 = priority (form_after [PrioritySelect Medium_option])"
    "Fin 4 = priority (form_after [PrioritySelect Low_option])"
    by (simp_all only: st priority_option_number.simps)
  then show "{Fin 1, Fin 2, Fin 3, Fin 4} \<subseteq> range (\<lambda>es. priority (form_after es))"
    by (metis (mono_tags, lifting) insert_subset empty_subsetI rangeI)
qed

text \<open>
  C3. The priority options offered by the form are exactly the four levels Critical = 1,
  High = 2, Medium = 3 and Low = 4. Picking a level stores its number in the form state
  and sends it in the payload; the other inputs leave it as it is. Each of the four
  numbers can be submitted, and nothing else: after every sequence of change events the
  priority of the state and of the payload is one of 1, 2, 3, 4. The numbers ascend from
  Critical down to Low, and the lower number has the higher precedence: of two requests
  with ample resources, the Priority scheduler serves the one with the lower number
  first, also when it arrived later.
\<close>

theorem form_offers_four_priority_levels:
  "map (\<lambda>opt. (priority_option_label opt, priority_option_number opt,
                 priority_option_value opt)) priority_options =
     [(''Critical'', 1, ''1''), (''High'', 2, ''2''), (''Medium'', 3, ''3''), (''Low'', 4, ''4'')]
   \<and> set priority_options = UNIV
   \<and> parseInt (priority_option_value opt) = Fin (priority_option_number opt)
   \<and> priority (form_after (events @ [PrioritySelect opt])) = Fin (priority_option_number opt)
   \<and> get_prop (JSON_stringify (form_after (events @ [PrioritySelect opt]))) ''priority'' =
       Inr (JNum (Fin (priority_option_number opt)))
   \<and> priority (onChange f (NameInput v)) = priority f
   \<and> priority (onChange f (ResourceSelect r)) = priority f
   \<and> priority (onChange f (DurationInput v)) = priority f
   \<and> priority (form_after events) \<in> {Fin 1, Fin 2, Fin 3, Fin 4}
   \<and> range (\<lambda>es. priority (form_after es)) = {Fin 1, Fin 2, Fin 3, Fin 4}
   \<and> get_prop (JSON_stringify (form_after events)) ''priority'' \<in>
       {Inr (JNum (Fin 1)), Inr (JNum (Fin 2)), Inr (JNum (Fin 3)), Inr (JNum (Fin 4))}
   \<and> sorted_wrt (<) (map priority_option_number priority_options)
   \<and> (distinct (map res_id pool) \<and> ample pool [rb, ra]
        \<and> request_arrival rb \<le> request_arrival ra
        \<and> request_priority ra < request_priority rb
      \<longrightarrow> map decision_request (fst (plan_priority [rb, ra] pool)) =
            [request_id ra, request_id rb])"
proof -
  have opts: "map (\<lambda>opt. (priority_option_label opt, priority_option_number opt,
                 priority_option_value opt)) priority_options =
     [(''Critical'', 1, ''1''), (''High'', 2, ''2''), (''Medium'', 3, ''3''), (''Low'', 4, ''4'')]"
    by (simp add: priority_options_def)
  have all: "set priority_options = UNIV"
  proof -
    have "x \<in> set priority_options" for x
      by (cases x) (simp_all add: priority_options_def)
    then show ?thesis by blast
  qed
  have parsed: "parseInt (priority_option_value opt) = Fin (priority_option_number opt)"
    by (rule parseInt_option_value)
  have stored: "priority (form_after (events @ [PrioritySelect opt])) =
      Fin (priority_option_number opt)"
    by (simp add: form_after_snoc parseInt_option_value)
  have sent: "get_prop (JSON_stringify (form_after (events @ [PrioritySelect opt]))) ''priority'' =
       Inr (JNum (Fin (priority_option_number opt)))"
    using stringify_priority [OF priority_option_number_range [of opt]]
    by (simp add: payload_priority stored)
  have kept: "priority (onChange f (NameInput v)) = priority f"
    "priority (onChange f (ResourceSelect r)) = priority f"
    "priority (onChange f (DurationInput v)) = priority f"
    by simp_all
  have p: "priority (form_after events) \<in> {Fin 1, Fin 2, Fin 3, Fin 4}"
    using form_after_choices [of events] by simp
  have "get_prop (JSON_stringify (form_after events)) ''priority'' =
      Inr (JNum (priority (form_after events)))"
    using stringify_priority [OF p] by (simp add: payload_priority)
  with p have g: "get_prop (JSON_stringify (form_after events)) ''priority'' \<in>
       {Inr (JNum (Fin 1)), Inr (JNum (Fin 2)), Inr (JNum (Fin 3)), Inr (JNum (Fin 4))}"
    by auto
  have asc: "sorted_wrt (<) (map priority_option_number priority_options)"
    by (simp add: priority_options_def)
  have prec: "distinct (map res_id pool) \<and> ample pool [rb, ra]
        \<and> request_arrival rb \<le> request_arrival ra
        \<and> request_priority ra < request_priority rb
      \<longrightarrow> map decision_request (fst (plan_priority [rb, ra] pool)) =
            [request_id ra, request_id rb]"
  proof
    assume h: "distinct (map res_id pool) \<and> ample pool [rb, ra]
        \<and> request_arrival rb \<le> request_arrival ra
        \<and> request_priority ra < request_priority rb"
    then have "sorted (map request_arrival [rb, ra])" by simp
    with h have "map decision_request (fst (plan_priority [rb, ra] pool)) =
        map request_id (sort_key request_priority [rb, ra])"
      using plan_priority_order [of pool "[rb, ra]"] by blast
    moreover have "sort_key request_priority [rb, ra] = [ra, rb]" using h by simp
    ultimately show "map decision_request (fst (plan_priority [rb, ra] pool)) =
        [request_id ra, request_id rb]"
      by simp
  qed
  from opts all parsed stored sent kept p priority_range g asc prec show ?thesis
    by blast
qed

text \<open>
  After a name and a duration are typed, picking Low stores and sends 4. A Critical
  request that arrives after a Low one, with a bed for each, is served first.
\<close>

theorem form_offers_four_priority_levels_witness:
  "priority (form_after ([NameInput ''Ann'', DurationInput ''45''] @ [PrioritySelect Low_option])) =
     Fin 4
   \<and> get_prop (JSON_stringify
        (form_after ([NameInput ''Ann'', DurationInput ''45''] @ [PrioritySelect Low_option])))
        ''priority'' = Inr (JNum (Fin 4))
   \<and> map decision_request (fst (plan_priority
        [\<lparr>request_id = 1, request_patient = ''Ann'', request_kind = Bed, request_priority = 4,
          request_duration = 45, request_arrival = 0, request_state = Pending\<rparr>,
         \<lparr>request_id = 2, request_patient = ''Bob'', request_kind = Bed, request_priority = 1,
          request_duration = 30, request_arrival = 1, request_state = Pending\<rparr>]
        [\<lparr>res_id = 1, res_kind = Bed, res_label = ''Bed 1'', res_status = Available\<rparr>,
         \<lparr>res_id = 2, res_kind = Bed, res_label = ''Bed 2'', res_status = Available\<rparr>]))
     = [2, 1]"
proof -
  let ?pool = "[\<lparr>res_id = 1, res_kind = Bed, res_label = ''Bed 1'', res_status = Available\<rparr>,
         \<lparr>res_id = 2, res_kind = Bed, res_label = ''Bed 2'', res_status = Available\<rparr>]"
  let ?rb = "\<lparr>request_id = 1, request_patient = ''Ann'', request_kind = Bed, request_priority = 4,
          request_duration = 45, request_arrival = 0, request_state = Pending\<rparr>"
  let ?ra = "\<lparr>request_id = 2, request_patient = ''Bob'', request_kind = Bed, request_priority = 1,
          request_duration = 30, request_arrival = 1, request_state = Pending\<rparr>"
  have h: "distinct (map res_id ?pool) \<and> ample ?pool [?rb, ?ra]
        \<and> request_arrival ?rb \<le> request_arrival ?ra
        \<and> request_priority ?ra < request_priority ?rb"
    by (simp add: ample_def listAvailable_def)
  from form_offers_four_priority_levels
    [where opt = Low_option and events = "[NameInput ''Ann'', DurationInput ''45'']"
       and pool = ?pool and rb = ?rb and ra = ?ra]
    h show ?thesis by simp
qed



text \<open>
  C8. The form validates nothing before it submits. When the duration input is cleared,
  \<open>parseInt\<close> of the empty text is \<open>NaN\<close>, which is serialised as \<open>null\<close>: the payload
  sent has a \<open>null\<close> duration. An empty patient name is sent as the empty string. Every
  form state is handed to \<open>fetch\<close> as it is.
\<close>

theorem cleared_duration_is_sent_as_null:
  "parseInt '''' = NaN
   \<and> duration (onChange f (DurationInput '''')) = NaN
   \<and> JSON_stringify (onChange f (DurationInput '''')) =
       JObj [(''patient_name'', JStr (patient_name f)),
             (''resource_type'', JStr (resource_type f)),
             (''priority'', stringify_number (priority f)),
             (''duration'', JNull)]
   \<and> JSON_stringify (onChange f (NameInput '''')) =
       JObj [(''patient_name'', JStr ''''),
             (''resource_type'', JStr (resource_type f)),
             (''priority'', stringify_number (priority f)),
             (''duration'', stringify_number (duration f))]
   \<and> req_body (createRequest_fetch (form_after [DurationInput ''''])) =
       Some (JObj [(''patient_name'', JStr ''''),
                   (''resource_type'', JStr ''Bed''),
                   (''priority'', JNum (Fin 2)),
                   (''duration'', JNull)])
   \<and> handleSubmit net f =
       (case net (createRequest_fetch f) of
          Inl e \<Rightarrow> Inl e
        | Inr res \<Rightarrow>
            (case res_json res of
               Inl e \<Rightarrow> Inl e
             | Inr v \<Rightarrow> (case get_prop v ''id'' of
                           Inl e \<Rightarrow> Inl e
                         | Inr i \<Rightarrow> (case to_string i of
                                       Inl e \<Rightarrow> Inl e
                                     | Inr t \<Rightarrow> Inr (''Request submitted! ID = '' @ t)))))"
proof -
  have e: "parseInt '''' = NaN" by (rule parseInt_empty)
  have n: "stringify_number NaN = JNull" by (simp add: stringify_number_def)
  have h: "handleSubmit net f =
       (case net (createRequest_fetch f) of
          Inl e \<Rightarrow> Inl e
        | Inr res \<Rightarrow>
            (case res_json res of
               Inl e \<Rightarrow> Inl e
             | Inr v \<Rightarrow> (case get_prop v ''id'' of
                           Inl e \<Rightarrow> Inl e
                         | Inr i \<Rightarrow> (case to_string i of
                                       Inl e \<Rightarrow> Inl e
                                     | Inr t \<Rightarrow> Inr (''Request submitted! ID = '' @ t)))))"
    by (simp add: handleSubmit_def createRequest_def split: sum.splits)
  from e n h stringify_level(2) show ?thesis
    by (simp add: JSON_stringify_def createRequest_fetch_def form_after_def initial_form_def)
qed

subsection \<open>The allocation list shown after a scheduler run\<close>

lemma run_answering:
  "run (answering \<lparr>resp_status = s, resp_body = Some res\<rparr>) alg =
     (case get_prop res ''allocations'' of Inl e \<Rightarrow> Inl e | Inr v \<Rightarrow> Inr (js_or v (JArr [])))"
  by (simp add: run_def runScheduler_def answering_def res_json_def)

lemma AllocationResults_empty_iff:
  "(AllocationResults (JArr xs) = Inr no_allocations) = (xs = [])"
  by (cases xs) (auto simp: AllocationResults_def no_allocations_def split: sum.splits)

text \<open>
  C9 (as amended). For every response whose body is a JSON object with no
  \<open>allocations\<close> property (an error body such as \<open>{"error": ...}\<close>) or with a falsy
  one, the allocation list shown becomes the empty list; an \<open>allocations\<close> array is shown
  as it is. In each of these cases \<open>AllocationResults\<close> receives a list, and it renders
  the empty-state message exactly when that list is empty.
\<close>

theorem run_defaults_to_empty_list:
  assumes "map_of kvs ''allocations'' = None
           \<or> (\<exists>v. map_of kvs ''allocations'' = Some v \<and> \<not> truthy v)
           \<or> (\<exists>xs. map_of kvs ''allocations'' = Some (JArr xs))"
  shows "run (answering \<lparr>resp_status = s, resp_body = Some (JObj kvs)\<rparr>) alg =
           Inr (case map_of kvs ''allocations'' of Some (JArr xs) \<Rightarrow> JArr xs | _ \<Rightarrow> JArr [])
         \<and> (\<exists>xs. click (answering \<lparr>resp_status = s, resp_body = Some (JObj kvs)\<rparr>) b old = JArr xs
                 \<and> (AllocationResults (JArr xs) = Inr no_allocations) = (xs = []))"
proof -
  let ?net = "answering \<lparr>resp_status = s, resp_body = Some (JObj kvs)\<rparr>"
  let ?new = "case map_of kvs ''allocations'' of Some (JArr xs) \<Rightarrow> JArr xs | _ \<Rightarrow> JArr []"
  have r: "run ?net a = Inr ?new" for a
    using assms
    by (auto simp: run_answering field_def js_or_def split: option.splits jsval.splits)
  have "\<exists>xs. ?new = JArr xs"
    by (auto split: option.splits jsval.splits)
  then obtain xs where xs: "?new = JArr xs" by blast
  have "click ?net b old = JArr xs"
    using r [of "onClick_alg b"] xs by (simp add: click_def)
  then show ?thesis using r [of alg] AllocationResults_empty_iff [of xs] by blast
qed

text \<open>An unknown-algorithm error body, with status 400, empties the list shown.\<close>

theorem run_defaults_to_empty_list_witness:
  "run (answering \<lparr>resp_status = 400, resp_body = Some (JObj [(''error'', JStr ''Unknown algorithm'')])\<rparr>) ''rr''
     = Inr (JArr [])
   \<and> click (answering \<lparr>resp_status = 400, resp_body = Some (JObj [(''error'', JStr ''Unknown algorithm'')])\<rparr>)
       RoundRobin_button (JArr [JObj [(''patient'', JStr ''Ann'')]]) = JArr []
   \<and> AllocationResults (JArr []) = Inr no_allocations"
proof -
  have h: "map_of [(''error'', JStr ''Unknown algorithm'')] ''allocations'' = None
           \<or> (\<exists>v. map_of [(''error'', JStr ''Unknown algorithm'')] ''allocations'' = Some v \<and> \<not> truthy v)
           \<or> (\<exists>xs. map_of [(''error'', JStr ''Unknown algorithm'')] ''allocations'' = Some (JArr xs))"
    by simp
  have r: "run (answering \<lparr>resp_status = 400, resp_body = Some (JObj [(''error'', JStr ''Unknown algorithm'')])\<rparr>) ''rr''
     = Inr (JArr [])"
    using run_defaults_to_empty_list [OF h, of 400 "''rr''"] by simp
  then show ?thesis
    by (simp add: click_def AllocationResults_def)
qed

text \<open>
  Two responses that lack an \<open>allocations\<close> array and do not set the list to the empty
  list: for the body \<open>null\<close>, \<open>run\<close> throws and the list shown stays what it was; for
  an \<open>allocations\<close> property that is a non-empty string or an object, that value itself
  is handed to \<open>AllocationResults\<close>, which throws on the string and renders the
  empty-state message for the object.
\<close>

theorem run_null_body_and_non_array_allocations:
  "run (answering \<lparr>resp_status = 200, resp_body = Some JNull\<rparr>) ''rr'' = Inl TypeError
   \<and> click (answering \<lparr>resp_status = 200, resp_body = Some JNull\<rparr>) RoundRobin_button
       (JArr [JObj [(''patient'', JStr ''Ann'')]]) = JArr [JObj [(''patient'', JStr ''Ann'')]]
   \<and> run (answering \<lparr>resp_status = 400,
                      resp_body = Some (JObj [(''allocations'', JStr ''Unknown algorithm'')])\<rparr>) ''rr''
       = Inr (JStr ''Unknown algorithm'')
   \<and> AllocationResults (JStr ''Unknown algorithm'') = Inl TypeError
   \<and> run (answering \<lparr>resp_status = 200, resp_body = Some (JObj [(''allocations'', JObj [])])\<rparr>) ''rr''
       = Inr (JObj [])
   \<and> AllocationResults (JObj []) = Inr no_allocations"
proof -
  have "utf16_length ''Unknown algorithm'' = 17" by code_simp
  then show ?thesis
    by (simp add: run_answering click_def field_def js_or_def AllocationResults_def)
qed

subsection \<open>The fields the result and resource panels render\<close>

lemma allocation_line_object:
  "allocation_line (JObj a) i =
     Inr (Element ''p'' (Some (number_to_string (Fin (int i)))) []
            [Element ''strong'' None [] [Expr (field a ''patient'')],
             Text ('' '' @ arrow @ '' ''),
             Expr (field a ''resource''),
             Text '' ('',
             Expr (field a ''resource_type''),
             Text '')''])"
  by (simp add: allocation_line_def)

lemma upt_shift: "[i ..< i + length (x # xs)] = i # [Suc i ..< Suc i + length xs]"
proof -
  have "i < i + length (x # xs)" by simp
  from upt_conv_Cons [OF this] show ?thesis by (simp del: upt_Suc)
qed

lemma map_indexed_objects:
  "(\<And>a k. f (JObj a) k = Inr (g a k)) \<Longrightarrow>
   map_indexed f i (map JObj as) = Inr (map (\<lambda>(a, k). g a k) (zip as [i ..< i + length as]))"
proof (induction as arbitrary: i)
  case Nil
  then show ?case by simp
next
  case (Cons a as)
  have "map_indexed f (Suc i) (map JObj as) =
      Inr (map (\<lambda>(a, k). g a k) (zip as [Suc i ..< Suc i + length as]))"
    using Cons.prems by (intro Cons.IH)
  moreover have "f (JObj a) i = Inr (g a i)" using Cons.prems by simp
  ultimately show ?case unfolding upt_shift by simp
qed


text \<open>
  C5 (as amended). For every element of the list that \<open>AllocationResults\<close> renders, the
  line shown carries exactly the element's \<open>patient\<close>, \<open>resource\<close> and \<open>resource_type\<close>
  properties: two elements give the same line if and only if they agree on these three.
  The duration of an allocation is not read. A non-empty list of objects is rendered as
  one line per element, in order.
\<close>

theorem allocation_line_shows_patient_resource_and_type:
  "(allocation_line (JObj a) i = allocation_line (JObj b) i) =
     (field a ''patient'' = field b ''patient''
      \<and> field a ''resource'' = field b ''resource''
      \<and> field a ''resource_type'' = field b ''resource_type'')
   \<and> AllocationResults (JArr (map JObj (a # as))) =
       Inr (Element ''div'' None []
              [Element ''h2'' None [] [Text ''Scheduling Output''],
               Items (map (\<lambda>(x, k).
                        Element ''p'' (Some (number_to_string (Fin (int k)))) []
                          [Element ''strong'' None [] [Expr (field x ''patient'')],
                           Text ('' '' @ arrow @ '' ''),
                           Expr (field x ''resource''),
                           Text '' ('',
                           Expr (field x ''resource_type''),
                           Text '')''])
                      (zip (a # as) [0 ..< length (a # as)]))])"
proof -
  have eq: "(allocation_line (JObj a) i = allocation_line (JObj b) i) =
     (field a ''patient'' = field b ''patient''
      \<and> field a ''resource'' = field b ''resource''
      \<and> field a ''resource_type'' = field b ''resource_type'')"
    by (auto simp: allocation_line_object)
  let ?g = "\<lambda>x k. Element ''p'' (Some (number_to_string (Fin (int k)))) []
                          [Element ''strong'' None [] [Expr (field x ''patient'')],
                           Text ('' '' @ arrow @ '' ''),
                           Expr (field x ''resource''),
                           Text '' ('',
                           Expr (field x ''resource_type''),
                           Text '')'']"
  have "map_indexed allocation_line 0 (map JObj (a # as)) =
      Inr (map (\<lambda>(x, k). ?g x k) (zip (a # as) [0 ..< 0 + length (a # as)]))"
    by (rule map_indexed_objects) (rule allocation_line_object)
  then have m: "map_indexed allocation_line 0 (map JObj (a # as)) =
      Inr (map (\<lambda>(x, k). ?g x k) (zip (a # as) [0 ..< length (a # as)]))"
    by (simp del: upt_Suc)
  have "AllocationResults (JArr (map JObj (a # as))) =
      (case map_indexed allocation_line 0 (map JObj (a # as)) of
         Inl e \<Rightarrow> Inl e
       | Inr ps \<Rightarrow> Inr (Element ''div'' None []
                         [Element ''h2'' None [] [Text ''Scheduling Output''], Items ps]))"
    by (simp add: AllocationResults_def)
  with m have res: "AllocationResults (JArr (map JObj (a # as))) =
       Inr (Element ''div'' None []
              [Element ''h2'' None [] [Text ''Scheduling Output''],
               Items (map (\<lambda>(x, k). ?g x k) (zip (a # as) [0 ..< length (a # as)]))])"
    by simp
  from eq res show ?thesis by blast
qed

text \<open>
  An allocation with no \<open>duration\<close> property is accepted by \<open>run\<close> and rendered by
  \<open>AllocationResults\<close> exactly as the same allocation with a duration of 30.
\<close>

theorem allocation_duration_is_not_rendered:
  "run (answering \<lparr>resp_status = 200,
         resp_body = Some (JObj [(''scheduler'', JStr ''FCFS''),
           (''allocations'', JArr [JObj [(''patient'', JStr ''Ann''), (''resource'', JStr ''Bed 1''),
                                         (''resource_type'', JStr ''Bed'')]])])\<rparr>) ''fcfs''
     = Inr (JArr [JObj [(''patient'', JStr ''Ann''), (''resource'', JStr ''Bed 1''),
                        (''resource_type'', JStr ''Bed'')]])
   \<and> get_prop (JObj [(''patient'', JStr ''Ann''), (''resource'', JStr ''Bed 1''),
                      (''resource_type'', JStr ''Bed'')]) ''duration'' = Inr JUndefined
   \<and> AllocationResults (JArr [JObj [(''patient'', JStr ''Ann''), (''resource'', JStr ''Bed 1''),
                                    (''resource_type'', JStr ''Bed'')]])
     = AllocationResults (JArr [JObj [(''patient'', JStr ''Ann''), (''resource'', JStr ''Bed 1''),
                                      (''resource_type'', JStr ''Bed''), (''duration'', JNum (Fin 30))]])
   \<and> AllocationResults (JArr [JObj [(''patient'', JStr ''Ann''), (''resource'', JStr ''Bed 1''),
                                    (''resource_type'', JStr ''Bed''), (''duration'', JNum (Fin 30))]])
     = Inr (Element ''div'' None []
              [Element ''h2'' None [] [Text ''Scheduling Output''],
               Items [Element ''p'' (Some ''0'') []
                        [Element ''strong'' None [] [Expr (JStr ''Ann'')],
                         Text ('' '' @ arrow @ '' ''),
                         Expr (JStr ''Bed 1''),
                         Text '' ('',
                         Expr (JStr ''Bed''),
                         Text '')'']]])"
proof -
  have "number_to_string (Fin 0) = ''0''" by code_simp
  then show ?thesis
    by (simp add: run_def runScheduler_def answering_def res_json_def js_or_def
        AllocationResults_def allocation_line_def field_def)
qed





end
